theory Spec2Isabelle
  imports Main
begin

section \<open>The Tesseract OCR plugin of OCRmyPDF\<close>

text \<open>
  A shallow embedding of \<^verbatim>\<open>src/ocrmypdf/builtin_plugins/tesseract_ocr.py\<close>: the hooks
  \<^verbatim>\<open>check_options\<close> and \<^verbatim>\<open>validate\<close>, and the two text-layer methods of
  \<^verbatim>\<open>TesseractOcrEngine\<close>. The process environment \<^verbatim>\<open>os.environ\<close>, the options object and
  the log are explicit values; every exception is a value of type \<open>error\<close>.
\<close>

subsection \<open>Errors\<close>

datatype error =
    ZeroDivisionError
  | ValueError
  | KeyError
  | EngineUnavailable
  | EngineVersionTooOld

subsection \<open>Python built-ins used by the plugin\<close>

text \<open>
  A Python \<^verbatim>\<open>str\<close> is modelled by a HOL string whose characters stand for the code points
  U+0000 to U+00FF.
\<close>

definition is_digit :: "char \<Rightarrow> bool" where
  "is_digit c = (c \<in> set ''0123456789'')"

text \<open>
  \<^verbatim>\<open>str.isnumeric()\<close>: the string is not empty and every character has a Unicode numeric
  value. Below U+0100 these are the ten decimal digits, the superscripts U+00B2, U+00B3 and
  U+00B9 and the fractions U+00BC, U+00BD and U+00BE.
\<close>

definition numeric_char :: "char \<Rightarrow> bool" where
  "numeric_char c =
     (is_digit c \<or> (of_char c :: nat) \<in> {0xB2, 0xB3, 0xB9, 0xBC, 0xBD, 0xBE})"

definition isnumeric :: "string \<Rightarrow> bool" where
  "isnumeric s = (s \<noteq> [] \<and> list_all numeric_char s)"

text \<open>\<^verbatim>\<open>str(n)\<close> for an integer: its decimal digits, after a minus sign when negative.\<close>

definition digit_char :: "nat \<Rightarrow> char" where
  "digit_char d = ''0123456789'' ! d"

fun digits_nat :: "nat \<Rightarrow> string" where
  "digits_nat n =
     (if n < 10 then [digit_char n]
      else digits_nat (n div 10) @ [digit_char (n mod 10)])"

declare digits_nat.simps [simp del]

definition py_str :: "int \<Rightarrow> string" where
  "py_str i = (if i < 0 then CHR ''-'' # digits_nat (nat (- i)) else digits_nat (nat i))"

text \<open>
  \<^verbatim>\<open>int(s)\<close> in base ten: white space is stripped at both ends (below U+0100 the
  characters U+0009 to U+000D, U+0020, U+0085 and U+00A0), one sign may follow, then decimal
  digits in which single underscores may stand between two digits. Anything else raises
  \<^verbatim>\<open>ValueError\<close>, and so does a string of more digits than the interpreter converts:
  \<^verbatim>\<open>sys.get_int_max_str_digits()\<close>, 4300 unless the interpreter was started otherwise. The
  sign, the white space and the underscores do not count as digits.
\<close>

definition int_max_str_digits :: nat where
  "int_max_str_digits = 4300"

definition is_space :: "char \<Rightarrow> bool" where
  "is_space c =
     ((of_char c :: nat) \<in> {0x09, 0x0A, 0x0B, 0x0C, 0x0D, 0x20, 0x85, 0xA0})"

definition strip :: "string \<Rightarrow> string" where
  "strip s = rev (dropWhile is_space (rev (dropWhile is_space s)))"

fun dec_body :: "string \<Rightarrow> bool" where
  "dec_body [] = False"
| "dec_body [c] = is_digit c"
| "dec_body (c # d # r) =
     (is_digit c \<and> (if d = CHR ''_'' then dec_body r else dec_body (d # r)))"

definition digit_value :: "char \<Rightarrow> nat" where
  "digit_value c = of_char c - 48"

definition dec_value :: "string \<Rightarrow> nat" where
  "dec_value s = foldl (\<lambda>a c. 10 * a + digit_value c) 0 s"

definition py_int :: "string \<Rightarrow> error + int" where
  "py_int s =
     (let t = strip s;
          neg = (t \<noteq> [] \<and> hd t = CHR ''-'');
          u = (if t \<noteq> [] \<and> (hd t = CHR ''-'' \<or> hd t = CHR ''+'') then tl t else t);
          ds = filter (\<lambda>c. c \<noteq> CHR ''_'') u
      in if dec_body u \<and> length ds \<le> int_max_str_digits
         then Inr ((if neg then - 1 else 1) * int (dec_value ds))
         else Inl ValueError)"

text \<open>\<^verbatim>\<open>a // b\<close> on integers: floor division, \<^verbatim>\<open>ZeroDivisionError\<close> when \<open>b\<close> is zero.\<close>

definition floordiv :: "int \<Rightarrow> int \<Rightarrow> error + int" where
  "floordiv a b = (if b = 0 then Inl ZeroDivisionError else Inr (a div b))"

subsection \<open>The process environment\<close>

type_synonym environ = "string \<rightharpoonup> string"

text \<open>\<^verbatim>\<open>os.environ.get(key, default)\<close>\<close>

definition environ_get :: "environ \<Rightarrow> string \<Rightarrow> string \<Rightarrow> string" where
  "environ_get environ k dflt = (case environ k of None \<Rightarrow> dflt | Some v \<Rightarrow> v)"

text \<open>\<^verbatim>\<open>os.environ[key]\<close>\<close>

definition environ_item :: "environ \<Rightarrow> string \<Rightarrow> error + string" where
  "environ_item environ k = (case environ k of None \<Rightarrow> Inl KeyError | Some v \<Rightarrow> Inr v)"

subsection \<open>Helpers of the package\<close>

text \<open>
  Modelled from the spec: \<^verbatim>\<open>ocrmypdf.helpers.clamp\<close> is imported by the plugin and is not
  part of the source at hand. The specification uses \<^verbatim>\<open>clamp(x, 1, 3)\<close> as "clamped to
  [1, 3]", with \<^verbatim>\<open>clamp(4,1,3) = 3\<close> and \<^verbatim>\<open>clamp(0,1,3) = 1\<close>.
\<close>

definition clamp :: "int \<Rightarrow> int \<Rightarrow> int \<Rightarrow> int" where
  "clamp n smallest largest = max smallest (min n largest)"

subsection \<open>Options\<close>

text \<open>
  The fields of the options object that the plugin reads or writes. The time-out is only
  handed on, so its type is a parameter; fields of other plugins live in the record's
  extension.
\<close>

record 't options =
  jobs :: int
  pdf_renderer :: string
  languages :: "string list"
  tesseract_config :: "string list"
  tesseract_pagesegmode :: "int option"
  tesseract_oem :: "int option"
  tesseract_thresholding :: int
  tesseract_timeout :: 't
  user_words :: "string option"
  user_patterns :: "string option"

subsection \<open>The hook \<^verbatim>\<open>validate\<close>\<close>

text \<open>
  \<^verbatim>\<open>validate(pdfinfo, options)\<close> reads and writes \<^verbatim>\<open>os.environ\<close>; the model takes the
  environment and returns it with \<^verbatim>\<open>tess_threads\<close>, the value the hook logs at debug level.
  \<^verbatim>\<open>len(pdfinfo)\<close> is the number of pages.
\<close>

definition validate ::
  "'p list \<Rightarrow> ('t, 'z) options_scheme \<Rightarrow> environ \<Rightarrow> error + (environ \<times> int)" where
  "validate pdfinfo options environ =
     (if \<not> isnumeric (environ_get environ ''OMP_THREAD_LIMIT'' '''') then
        (case floordiv (jobs options) (int (length pdfinfo)) of
           Inl e \<Rightarrow> Inl e
         | Inr q \<Rightarrow>
             let tess_threads = clamp q 1 3
             in Inr (environ(''OMP_THREAD_LIMIT'' \<mapsto> py_str tess_threads), tess_threads))
      else
        (case environ_item environ ''OMP_THREAD_LIMIT'' of
           Inl e \<Rightarrow> Inl e
         | Inr v \<Rightarrow>
             (case py_int v of
                Inl e \<Rightarrow> Inl e
              | Inr tess_threads \<Rightarrow> Inr (environ, tess_threads))))"

subsection \<open>The hook \<^verbatim>\<open>check_options\<close>\<close>

text \<open>
  \<^verbatim>\<open>check_external_program\<close> and \<^verbatim>\<open>tesseract.has_thresholding\<close> belong to modules that
  are not part of the source at hand. What they report about the installed engine is an
  input of the model: the error \<^verbatim>\<open>check_external_program\<close> ends with, if any, and the
  answer of \<^verbatim>\<open>has_thresholding()\<close>.
\<close>

record tesseract_probe =
  program_check :: "error option"
  has_thresholding :: bool

text \<open>The two messages the hook passes to \<^verbatim>\<open>log.warning\<close>.\<close>

definition thresholding_warning :: string where
  "thresholding_warning =
     ''The installed version of Tesseract does not support changes to its '' @
     ''thresholding method. The --tesseract-threshold argument will be '' @
     ''ignored.''"

definition pagesegmode_warning :: string where
  "pagesegmode_warning =
     ''The --tesseract-pagesegmode argument you select will disable OCR. '' @
     ''This may cause processing to fail.''"

text \<open>
  The hook mutates \<^verbatim>\<open>options\<close> and logs; the model returns the options as they are after
  the call and the warnings in the order they were emitted.
\<close>

definition check_options ::
  "tesseract_probe \<Rightarrow> ('t, 'z) options_scheme \<Rightarrow> error + (('t, 'z) options_scheme \<times> string list)"
  where
  "check_options tess options =
     (case program_check tess of
        Some e \<Rightarrow> Inl e
      | None \<Rightarrow>
          let options1 =
                (if pdf_renderer options = ''auto''
                 then options\<lparr>pdf_renderer := ''sandwich''\<rparr> else options);
              log1 =
                (if \<not> has_thresholding tess \<and> tesseract_thresholding options1 \<noteq> 0
                 then [thresholding_warning] else []);
              log2 =
                (if tesseract_pagesegmode options1 \<in> {Some 0, Some 2}
                 then log1 @ [pagesegmode_warning] else log1)
          in Inr (options1, log2))"

subsection \<open>The text-layer methods of \<^verbatim>\<open>TesseractOcrEngine\<close>\<close>

text \<open>
  \<^verbatim>\<open>generate_hocr\<close> and \<^verbatim>\<open>generate_pdf\<close> call the function of the same name in the
  module \<^verbatim>\<open>ocrmypdf._exec.tesseract\<close> with keyword arguments. The model returns that call:
  the function called and its keyword arguments in the order written.
\<close>

datatype 't pyval =
    PyNone
  | PyInt int
  | PyStr string
  | PyList "string list"
  | PyTimeout 't

definition opt_int :: "int option \<Rightarrow> 't pyval" where
  "opt_int x = (case x of None \<Rightarrow> PyNone | Some i \<Rightarrow> PyInt i)"

definition opt_str :: "string option \<Rightarrow> 't pyval" where
  "opt_str x = (case x of None \<Rightarrow> PyNone | Some s \<Rightarrow> PyStr s)"

datatype 't tesseract_call =
    Generate_hocr "(string \<times> 't pyval) list"
  | Generate_pdf "(string \<times> 't pyval) list"

definition generate_hocr ::
  "string \<Rightarrow> string \<Rightarrow> string \<Rightarrow> ('t, 'z) options_scheme \<Rightarrow> 't tesseract_call" where
  "generate_hocr input_file output_hocr output_text options =
     Generate_hocr
       [(''input_file'', PyStr input_file),
        (''output_hocr'', PyStr output_hocr),
        (''output_text'', PyStr output_text),
        (''languages'', PyList (languages options)),
        (''engine_mode'', opt_int (tesseract_oem options)),
        (''tessconfig'', PyList (tesseract_config options)),
        (''timeout'', PyTimeout (tesseract_timeout options)),
        (''pagesegmode'', opt_int (tesseract_pagesegmode options)),
        (''thresholding'', PyInt (tesseract_thresholding options)),
        (''user_words'', opt_str (user_words options)),
        (''user_patterns'', opt_str (user_patterns options))]"

definition generate_pdf ::
  "string \<Rightarrow> string \<Rightarrow> string \<Rightarrow> ('t, 'z) options_scheme \<Rightarrow> 't tesseract_call" where
  "generate_pdf input_file output_pdf output_text options =
     Generate_pdf
       [(''input_file'', PyStr input_file),
        (''output_pdf'', PyStr output_pdf),
        (''output_text'', PyStr output_text),
        (''languages'', PyList (languages options)),
        (''engine_mode'', opt_int (tesseract_oem options)),
        (''tessconfig'', PyList (tesseract_config options)),
        (''timeout'', PyTimeout (tesseract_timeout options)),
        (''pagesegmode'', opt_int (tesseract_pagesegmode options)),
        (''thresholding'', PyInt (tesseract_thresholding options)),
        (''user_words'', opt_str (user_words options)),
        (''user_patterns'', opt_str (user_patterns options))]"

text \<open>The keyword arguments of a call, and the value passed for one keyword, if any.\<close>

fun kwargs :: "'t tesseract_call \<Rightarrow> (string \<times> 't pyval) list" where
  "kwargs (Generate_hocr kw) = kw"
| "kwargs (Generate_pdf kw) = kw"

definition kwarg :: "'t tesseract_call \<Rightarrow> string \<Rightarrow> 't pyval option" where
  "kwarg call k = map_of (kwargs call) k"

subsection \<open>The arguments of the engine process\<close>

text \<open>
  Modelled from the spec: the functions \<^verbatim>\<open>generate_hocr\<close> and \<^verbatim>\<open>generate_pdf\<close> of
  \<^verbatim>\<open>ocrmypdf._exec.tesseract\<close>, which launch the engine, are not part of the source at
  hand. The specification says of the launch that the resolved options are serialized as
  process arguments, "thresholding -- only passed if the probe confirmed support, otherwise
  silently omitted". \<open>engine_arguments\<close> gives the options that go out to the engine
  process for a call made by the plugin.
\<close>

definition engine_arguments ::
  "tesseract_probe \<Rightarrow> 't tesseract_call \<Rightarrow> (string \<times> 't pyval) list" where
  "engine_arguments tess call =
     (if has_thresholding tess then kwargs call
      else filter (\<lambda>(k, v). k \<noteq> ''thresholding'') (kwargs call))"

subsection \<open>Inputs used in the examples\<close>

text \<open>
  The options as the argument parser of \<^verbatim>\<open>add_options\<close> leaves them when no Tesseract
  argument is given (the time-out in seconds), for a given number of jobs.
\<close>

definition default_options :: "int \<Rightarrow> nat options" where
  "default_options w =
     \<lparr>jobs = w, pdf_renderer = ''auto'', languages = [''eng''], tesseract_config = [],
      tesseract_pagesegmode = None, tesseract_oem = None, tesseract_thresholding = 0,
      tesseract_timeout = 180, user_words = None, user_patterns = None\<rparr>"

text \<open>An engine that passed the program check and cannot change its thresholding method.\<close>

definition old_tesseract :: tesseract_probe where
  "old_tesseract = \<lparr>program_check = None, has_thresholding = False\<rparr>"

text \<open>A document of \<open>p\<close> pages.\<close>

definition pages :: "nat \<Rightarrow> unit list" where
  "pages p = replicate p ()"

section \<open>Verification\<close>

subsection \<open>Facts about the built-ins and the helpers\<close>

lemma py_str_small: "py_str 1 = ''1''" "py_str 2 = ''2''" "py_str 3 = ''3''"
  by (simp_all add: py_str_def digits_nat.simps digit_char_def)

lemma clamp_bounds: "1 \<le> clamp q 1 3" "clamp q 1 3 \<le> 3"
  by (simp_all add: clamp_def)

lemma clamp_cases: "clamp q 1 3 = 1 \<or> clamp q 1 3 = 2 \<or> clamp q 1 3 = 3"
  unfolding clamp_def by linarith

lemma clamp_mono: "a \<le> b \<Longrightarrow> clamp a 1 3 \<le> clamp b 1 3"
  unfolding clamp_def by linarith

lemma digit_not_space: "is_digit c \<Longrightarrow> \<not> is_space c"
  by (auto simp: is_digit_def is_space_def)

lemma digit_not_sign: "is_digit c \<Longrightarrow> c \<noteq> CHR ''-'' \<and> c \<noteq> CHR ''+'' \<and> c \<noteq> CHR ''_''"
  by (auto simp: is_digit_def)

lemma numeric_not_space: "numeric_char c \<Longrightarrow> \<not> is_space c"
  by (auto simp: numeric_char_def is_digit_def is_space_def)

lemma numeric_not_sign: "numeric_char c \<Longrightarrow> c \<noteq> CHR ''-'' \<and> c \<noteq> CHR ''+''"
  by (auto simp: numeric_char_def is_digit_def)

lemma digit_numeric: "is_digit c \<Longrightarrow> numeric_char c"
  by (simp add: numeric_char_def)

lemma strip_id:
  assumes "list_all (\<lambda>c. \<not> is_space c) s"
  shows "strip s = s"
proof (cases s)
  case Nil
  then show ?thesis by (simp add: strip_def)
next
  case (Cons c r)
  with assms have 1: "dropWhile is_space s = s" by simp
  from Cons have "last s \<in> set s" by simp
  with assms have "\<not> is_space (last s)" by (auto simp: list_all_iff)
  then have "\<not> is_space (hd (rev s))" by (simp add: hd_rev)
  moreover from Cons have "rev s \<noteq> []" by simp
  ultimately have "dropWhile is_space (rev s) = rev s"
    by (cases "rev s") simp_all
  with 1 show ?thesis by (simp add: strip_def)
qed

lemma dec_body_digits: "s \<noteq> [] \<Longrightarrow> list_all is_digit s \<Longrightarrow> dec_body s"
  by (induction s rule: dec_body.induct) (auto dest: digit_not_sign)

lemma filter_digits: "list_all is_digit s \<Longrightarrow> filter (\<lambda>c. c \<noteq> CHR ''_'') s = s"
  by (induction s) (auto dest: digit_not_sign)

lemma py_int_of_digits:
  assumes "s \<noteq> []" "list_all is_digit s"
  shows "py_int s =
    (if length s \<le> int_max_str_digits then Inr (int (dec_value s)) else Inl ValueError)"
proof -
  from assms(2) have "list_all (\<lambda>c. \<not> is_space c) s"
    by (induction s) (auto dest: digit_not_space)
  then have t: "strip s = s" by (rule strip_id)
  from assms have h: "hd s \<noteq> CHR ''-''" "hd s \<noteq> CHR ''+''"
    by (cases s; auto dest: digit_not_sign)+
  show ?thesis
    using assms h by (simp add: py_int_def t dec_body_digits filter_digits)
qed

lemma py_int_digits:
  assumes "s \<noteq> []" "list_all is_digit s" "length s \<le> int_max_str_digits"
  shows "py_int s = Inr (int (dec_value s))"
  using py_int_of_digits [OF assms(1,2)] assms(3) by simp

lemma py_int_too_long:
  assumes "list_all is_digit s" "int_max_str_digits < length s"
  shows "py_int s = Inl ValueError"
proof -
  from assms(2) have "s \<noteq> []" by auto
  from py_int_of_digits [OF this assms(1)] assms(2) show ?thesis by simp
qed

lemma py_int_numeric_nonneg:
  assumes "isnumeric s" "py_int s = Inr b"
  shows "0 \<le> b"
proof -
  from assms(1) have ne: "s \<noteq> []" and num: "list_all numeric_char s"
    by (simp_all add: isnumeric_def)
  from num have "list_all (\<lambda>c. \<not> is_space c) s"
    by (induction s) (auto dest: numeric_not_space)
  then have t: "strip s = s" by (rule strip_id)
  from ne num have h: "hd s \<noteq> CHR ''-''"
    by (cases s) (auto dest: numeric_not_sign)
  show ?thesis
    using assms(2) ne h by (auto simp: py_int_def t Let_def split: if_splits)
qed

lemma isnumeric_digits: "s \<noteq> [] \<Longrightarrow> list_all is_digit s \<Longrightarrow> isnumeric s"
  by (induction s) (auto simp: isnumeric_def list_all_iff dest: digit_numeric)

lemma small_numeric: "isnumeric ''1''" "isnumeric ''2''" "isnumeric ''3''"
  by (simp_all add: isnumeric_def numeric_char_def is_digit_def)

lemma small_py_int: "py_int ''1'' = Inr 1" "py_int ''2'' = Inr 2" "py_int ''3'' = Inr 3"
  by (simp_all add: py_int_def strip_def is_space_def is_digit_def dec_value_def digit_value_def
      int_max_str_digits_def)

lemma budget_roundtrip:
  "isnumeric (py_str (clamp q 1 3)) \<and> py_int (py_str (clamp q 1 3)) = Inr (clamp q 1 3)"
  using clamp_cases [of q] by (auto simp: py_str_small small_numeric small_py_int)

lemma validate_compute:
  assumes "\<not> isnumeric (environ_get environ ''OMP_THREAD_LIMIT'' '''')" "pdfinfo \<noteq> []"
  shows "validate pdfinfo options environ =
    Inr (environ(''OMP_THREAD_LIMIT'' \<mapsto> py_str (clamp (jobs options div int (length pdfinfo)) 1 3)),
         clamp (jobs options div int (length pdfinfo)) 1 3)"
  using assms by (simp add: validate_def floordiv_def Let_def)

lemma validate_adopt:
  assumes "environ ''OMP_THREAD_LIMIT'' = Some v" "isnumeric v"
  shows "validate pdfinfo options environ =
    (case py_int v of Inl e \<Rightarrow> Inl e | Inr n \<Rightarrow> Inr (environ, n))"
  using assms by (simp add: validate_def environ_get_def environ_item_def)

lemma unset_not_numeric:
  "environ ''OMP_THREAD_LIMIT'' = None \<Longrightarrow> \<not> isnumeric (environ_get environ ''OMP_THREAD_LIMIT'' '''')"
  by (simp add: environ_get_def isnumeric_def)

lemma warnings_distinct: "thresholding_warning \<noteq> pagesegmode_warning"
  by (simp add: thresholding_warning_def pagesegmode_warning_def)

subsection \<open>The thread budget computed by \<^verbatim>\<open>validate\<close>\<close>

text \<open>
  Claim C1. With at least one job and at least one page, and \<^verbatim>\<open>OMP_THREAD_LIMIT\<close> not set in
  the environment, \<^verbatim>\<open>validate\<close> computes the thread budget
  \<open>clamp (jobs div pages) 1 3\<close> and publishes its decimal text in \<^verbatim>\<open>OMP_THREAD_LIMIT\<close>.
  Four jobs and one page give 3, four jobs and ten pages give 1, eight jobs and two pages
  give 3.
\<close>

theorem validate_computes_budget:
  assumes "environ ''OMP_THREAD_LIMIT'' = None"
    and "1 \<le> jobs options" and "1 \<le> length pdfinfo"
  shows "\<exists>budget.
      budget = clamp (jobs options div int (length pdfinfo)) 1 3 \<and>
      validate pdfinfo options environ =
        Inr (environ(''OMP_THREAD_LIMIT'' \<mapsto> py_str budget), budget) \<and>
      (jobs options = 4 \<and> length pdfinfo = 1 \<longrightarrow> budget = 3) \<and>
      (jobs options = 4 \<and> length pdfinfo = 10 \<longrightarrow> budget = 1) \<and>
      (jobs options = 8 \<and> length pdfinfo = 2 \<longrightarrow> budget = 3)"
proof -
  from assms(3) have ne: "pdfinfo \<noteq> []" by auto
  have "validate pdfinfo options environ =
      Inr (environ(''OMP_THREAD_LIMIT'' \<mapsto> py_str (clamp (jobs options div int (length pdfinfo)) 1 3)),
           clamp (jobs options div int (length pdfinfo)) 1 3)"
    using unset_not_numeric [of environ, OF assms(1)] ne by (rule validate_compute)
  then show ?thesis by (simp add: clamp_def)
qed

theorem validate_computes_budget_witness:
  "validate (pages 1) (default_options 4) Map.empty = Inr ([''OMP_THREAD_LIMIT'' \<mapsto> ''3''], 3) \<and>
   validate (pages 10) (default_options 4) Map.empty = Inr ([''OMP_THREAD_LIMIT'' \<mapsto> ''1''], 1) \<and>
   validate (pages 2) (default_options 8) Map.empty = Inr ([''OMP_THREAD_LIMIT'' \<mapsto> ''3''], 3)"
  using validate_computes_budget [of Map.empty "default_options 4" "pages 1"]
    validate_computes_budget [of Map.empty "default_options 4" "pages 10"]
    validate_computes_budget [of Map.empty "default_options 8" "pages 2"]
  by (simp add: default_options_def pages_def py_str_small)

text \<open>
  Claim C2. With at least one job and at least one page, and no override in the environment,
  the computed budget lies between 1 and 3, and for the same number of jobs a document with
  at least as many pages never gets a larger budget.
\<close>

theorem validate_budget_bounded_antitone:
  assumes "environ ''OMP_THREAD_LIMIT'' = None"
    and "1 \<le> jobs options"
    and "1 \<le> length pdfinfo" and "length pdfinfo \<le> length pdfinfo'"
  shows "\<exists>budget budget'.
      validate pdfinfo options environ =
        Inr (environ(''OMP_THREAD_LIMIT'' \<mapsto> py_str budget), budget) \<and>
      validate pdfinfo' options environ =
        Inr (environ(''OMP_THREAD_LIMIT'' \<mapsto> py_str budget'), budget') \<and>
      1 \<le> budget \<and> budget \<le> 3 \<and> 1 \<le> budget' \<and> budget' \<le> 3 \<and> budget' \<le> budget"
proof -
  let ?b = "clamp (jobs options div int (length pdfinfo)) 1 3"
  let ?b' = "clamp (jobs options div int (length pdfinfo')) 1 3"
  from assms(3,4) have ne: "pdfinfo \<noteq> []" "pdfinfo' \<noteq> []" by auto
  note nn = unset_not_numeric [of environ, OF assms(1)]
  have v: "validate pdfinfo options environ =
      Inr (environ(''OMP_THREAD_LIMIT'' \<mapsto> py_str ?b), ?b)"
    using nn ne(1) by (rule validate_compute)
  have v': "validate pdfinfo' options environ =
      Inr (environ(''OMP_THREAD_LIMIT'' \<mapsto> py_str ?b'), ?b')"
    using nn ne(2) by (rule validate_compute)
  have "0 \<le> jobs options" "0 < int (length pdfinfo)"
    "int (length pdfinfo) \<le> int (length pdfinfo')"
    using assms(2,4) ne(1) by simp_all
  then have "jobs options div int (length pdfinfo') \<le> jobs options div int (length pdfinfo)"
    by (rule zdiv_mono2)
  then have "?b' \<le> ?b" by (rule clamp_mono)
  with v v' clamp_bounds show ?thesis by blast
qed

theorem validate_budget_bounded_antitone_witness:
  "validate (pages 1) (default_options 2) Map.empty = Inr ([''OMP_THREAD_LIMIT'' \<mapsto> ''2''], 2) \<and>
   validate (pages 2) (default_options 2) Map.empty = Inr ([''OMP_THREAD_LIMIT'' \<mapsto> ''1''], 1) \<and>
   (1::int) \<le> 2"
  using validate_budget_bounded_antitone [of Map.empty "default_options 2" "pages 1" "pages 2"]
  by (simp add: validate_def environ_get_def isnumeric_def floordiv_def pages_def
      default_options_def clamp_def py_str_small)

subsection \<open>Overrides in the environment\<close>

text \<open>
  Claim C3, as stated, fails: a string of 4301 digits \<^verbatim>\<open>1\<close> is a non-negative integer in
  decimal and \<^verbatim>\<open>str.isnumeric()\<close> holds for it, but \<^verbatim>\<open>int()\<close> refuses more than 4300
  digits, so with \<^verbatim>\<open>OMP_THREAD_LIMIT\<close> set to it \<^verbatim>\<open>validate\<close> ends in \<^verbatim>\<open>ValueError\<close>
  and adopts nothing.
\<close>

theorem validate_long_override_counterexample:
  "list_all is_digit (replicate 4301 (CHR ''1'')) \<and>
   isnumeric (replicate 4301 (CHR ''1'')) \<and>
   validate (pages 1) (default_options 4)
     [''OMP_THREAD_LIMIT'' \<mapsto> replicate 4301 (CHR ''1'')] = Inl ValueError"
proof -
  let ?v = "replicate 4301 (CHR ''1'')"
  have d: "list_all is_digit ?v" by (simp add: list_all_iff is_digit_def)
  have "?v \<noteq> []" by simp
  then have n: "isnumeric ?v" using d by (rule isnumeric_digits)
  have "int_max_str_digits < length ?v" by (simp add: int_max_str_digits_def)
  with d have i: "py_int ?v = Inl ValueError" by (rule py_int_too_long)
  have e: "[''OMP_THREAD_LIMIT'' \<mapsto> ?v] ''OMP_THREAD_LIMIT'' = Some ?v" by simp
  have "validate (pages 1) (default_options 4) [''OMP_THREAD_LIMIT'' \<mapsto> ?v] =
      (case py_int ?v of Inl e \<Rightarrow> Inl e | Inr n \<Rightarrow> Inr ([''OMP_THREAD_LIMIT'' \<mapsto> ?v], n))"
    using e n by (rule validate_adopt)
  with i d n show ?thesis by simp
qed

text \<open>
  Claim C3, amended. Whatever the number of jobs and of pages: when \<^verbatim>\<open>OMP_THREAD_LIMIT\<close>
  is set to a non-empty string of decimal digits, of at most as many digits as \<^verbatim>\<open>int()\<close>
  converts (4300), \<^verbatim>\<open>validate\<close> returns the number these digits denote as the thread
  budget, neither clamped nor recomputed, and leaves the environment as it was.
\<close>

theorem validate_adopts_override:
  assumes "environ ''OMP_THREAD_LIMIT'' = Some v"
    and "v \<noteq> []" and "list_all is_digit v" and "length v \<le> int_max_str_digits"
  shows "validate pdfinfo options environ = Inr (environ, int (dec_value v))"
proof -
  from assms(2,3) have "isnumeric v" by (rule isnumeric_digits)
  with assms(1) have "validate pdfinfo options environ =
      (case py_int v of Inl e \<Rightarrow> Inl e | Inr n \<Rightarrow> Inr (environ, n))"
    by (rule validate_adopt)
  with py_int_digits [OF assms(2,3,4)] show ?thesis by simp
qed

theorem validate_adopts_override_witness:
  "validate (pages 0) (default_options 4) [''OMP_THREAD_LIMIT'' \<mapsto> ''12''] =
     Inr ([''OMP_THREAD_LIMIT'' \<mapsto> ''12''], 12)"
  using validate_adopts_override
    [of "[''OMP_THREAD_LIMIT'' \<mapsto> ''12'']" "''12''" "pages 0" "default_options 4"]
  by (simp add: is_digit_def dec_value_def digit_value_def int_max_str_digits_def)

text \<open>
  Claim C4, as stated, fails: with \<^verbatim>\<open>OMP_THREAD_LIMIT\<close> set to \<^verbatim>\<open>abc\<close>, which \<^verbatim>\<open>int()\<close>
  rejects, \<^verbatim>\<open>validate\<close> raises nothing; it computes the budget 3 for four jobs and one page
  and overwrites the variable with it.
\<close>

theorem validate_nonnumeric_override_counterexample:
  "py_int ''abc'' = Inl ValueError \<and>
   validate (pages 1) (default_options 4) [''OMP_THREAD_LIMIT'' \<mapsto> ''abc''] =
     Inr ([''OMP_THREAD_LIMIT'' \<mapsto> ''3''], 3)"
  by (simp add: py_int_def strip_def is_space_def is_digit_def validate_def environ_get_def
      isnumeric_def numeric_char_def floordiv_def pages_def default_options_def clamp_def
      py_str_small)

text \<open>
  Claim C4, amended. When \<^verbatim>\<open>OMP_THREAD_LIMIT\<close> is set to a value for which
  \<^verbatim>\<open>str.isnumeric()\<close> is false (a negative number, a float, other text, the empty string)
  and the document has at least one page, \<^verbatim>\<open>validate\<close> raises no error: it treats the
  variable as unset, computes \<open>clamp (jobs div pages) 1 3\<close> and overwrites the variable with
  that budget.
\<close>

theorem validate_nonnumeric_override_recomputed:
  assumes "environ ''OMP_THREAD_LIMIT'' = Some v"
    and "\<not> isnumeric v" and "1 \<le> length pdfinfo"
  shows "validate pdfinfo options environ =
    Inr (environ(''OMP_THREAD_LIMIT'' \<mapsto> py_str (clamp (jobs options div int (length pdfinfo)) 1 3)),
         clamp (jobs options div int (length pdfinfo)) 1 3)"
proof -
  from assms(1,2) have "\<not> isnumeric (environ_get environ ''OMP_THREAD_LIMIT'' '''')"
    by (simp add: environ_get_def)
  moreover from assms(3) have "pdfinfo \<noteq> []" by auto
  ultimately show ?thesis by (rule validate_compute)
qed

theorem validate_nonnumeric_override_recomputed_witness:
  "validate (pages 1) (default_options 4) [''OMP_THREAD_LIMIT'' \<mapsto> ''-1''] =
     Inr ([''OMP_THREAD_LIMIT'' \<mapsto> ''3''], 3) \<and>
   validate (pages 10) (default_options 4) [''OMP_THREAD_LIMIT'' \<mapsto> ''1.5''] =
     Inr ([''OMP_THREAD_LIMIT'' \<mapsto> ''1''], 1)"
  using validate_nonnumeric_override_recomputed
    [of "[''OMP_THREAD_LIMIT'' \<mapsto> ''-1'']" "''-1''" "pages 1" "default_options 4"]
    validate_nonnumeric_override_recomputed
    [of "[''OMP_THREAD_LIMIT'' \<mapsto> ''1.5'']" "''1.5''" "pages 10" "default_options 4"]
  by (simp add: isnumeric_def numeric_char_def is_digit_def pages_def default_options_def
      clamp_def py_str_small)

subsection \<open>A document without pages\<close>

text \<open>
  Claim C5. With no page and no override the claim asks for the budget of a one-page
  document. The code divides by the page count as it is: \<^verbatim>\<open>validate\<close> ends in
  \<^verbatim>\<open>ZeroDivisionError\<close> and publishes nothing.
\<close>

theorem validate_no_pages_raises:
  "validate (pages 0) (default_options 4) Map.empty = Inl ZeroDivisionError"
  by (simp add: validate_def environ_get_def isnumeric_def floordiv_def pages_def)

subsection \<open>The budget after the pass\<close>

text \<open>
  Claim C6, as stated, fails: with \<^verbatim>\<open>OMP_THREAD_LIMIT\<close> set to \<^verbatim>\<open>8\<close> the pass adopts the
  budget 8, which is above 3.
\<close>

theorem validate_budget_range_counterexample:
  "validate (pages 1) (default_options 4) [''OMP_THREAD_LIMIT'' \<mapsto> ''8''] =
     Inr ([''OMP_THREAD_LIMIT'' \<mapsto> ''8''], 8) \<and> \<not> (8::int) \<le> 3"
  by (simp add: validate_def environ_get_def environ_item_def isnumeric_def numeric_char_def
      py_int_def strip_def is_space_def is_digit_def dec_value_def digit_value_def
      int_max_str_digits_def)

text \<open>
  Claim C6, amended. After every pass of \<^verbatim>\<open>validate\<close> that returns: when the budget was
  computed (no value of \<^verbatim>\<open>OMP_THREAD_LIMIT\<close> for which \<^verbatim>\<open>str.isnumeric()\<close> holds was
  present), it is an integer between 1 and 3 and its decimal text is the value of
  \<^verbatim>\<open>OMP_THREAD_LIMIT\<close>; when an override was adopted, the budget is the integer the
  override denotes, not negative and not clamped, and the environment is unchanged.
\<close>

theorem validate_budget_after_pass:
  assumes "validate pdfinfo options environ = Inr (environ', budget)"
  shows "(\<not> isnumeric (environ_get environ ''OMP_THREAD_LIMIT'' '''') \<longrightarrow>
            1 \<le> budget \<and> budget \<le> 3 \<and>
            environ' = environ(''OMP_THREAD_LIMIT'' \<mapsto> py_str budget)) \<and>
         (isnumeric (environ_get environ ''OMP_THREAD_LIMIT'' '''') \<longrightarrow>
            0 \<le> budget \<and> environ' = environ \<and>
            py_int (environ_get environ ''OMP_THREAD_LIMIT'' '''') = Inr budget)"
proof (cases "isnumeric (environ_get environ ''OMP_THREAD_LIMIT'' '''')")
  case False
  with assms have "budget = clamp (jobs options div int (length pdfinfo)) 1 3"
    and "environ' = environ(''OMP_THREAD_LIMIT'' \<mapsto> py_str budget)"
    by (auto simp: validate_def floordiv_def Let_def split: if_splits)
  with False clamp_bounds show ?thesis by simp
next
  case True
  with assms have e: "environ' = environ"
    and i: "py_int (environ_get environ ''OMP_THREAD_LIMIT'' '''') = Inr budget"
    by (auto simp: validate_def environ_item_def environ_get_def
        split: option.splits sum.splits)
  from True i have "0 \<le> budget" by (rule py_int_numeric_nonneg)
  with True e i show ?thesis by simp
qed

theorem validate_budget_after_pass_witness:
  "validate (pages 1) (default_options 4) [''OMP_THREAD_LIMIT'' \<mapsto> ''0''] =
     Inr ([''OMP_THREAD_LIMIT'' \<mapsto> ''0''], 0) \<and>
   isnumeric (environ_get [''OMP_THREAD_LIMIT'' \<mapsto> ''0''] ''OMP_THREAD_LIMIT'' '''') \<and>
   py_int (environ_get [''OMP_THREAD_LIMIT'' \<mapsto> ''0''] ''OMP_THREAD_LIMIT'' '''') = Inr 0"
proof -
  have v: "validate (pages 1) (default_options 4) [''OMP_THREAD_LIMIT'' \<mapsto> ''0''] =
     Inr ([''OMP_THREAD_LIMIT'' \<mapsto> ''0''], 0)"
    by (simp add: validate_def environ_get_def environ_item_def isnumeric_def numeric_char_def
      py_int_def strip_def is_space_def is_digit_def dec_value_def digit_value_def
      int_max_str_digits_def)
  have n: "isnumeric (environ_get [''OMP_THREAD_LIMIT'' \<mapsto> ''0''] ''OMP_THREAD_LIMIT'' '''')"
    by (simp add: environ_get_def isnumeric_def numeric_char_def is_digit_def)
  from validate_budget_after_pass [OF v] n v show ?thesis by simp
qed

subsection \<open>Running the pass again\<close>

text \<open>
  Claim C7. Once a pass of \<^verbatim>\<open>validate\<close> has returned, every later pass, whatever its
  options and document, leaves the environment as the first pass left it and returns the
  same budget: the published value is adopted, not recomputed.
\<close>

theorem validate_idempotent:
  assumes "validate pdfinfo options environ = Inr (environ', budget)"
  shows "validate pdfinfo' options' environ' = Inr (environ', budget)"
proof (cases "isnumeric (environ_get environ ''OMP_THREAD_LIMIT'' '''')")
  case False
  with assms have b: "budget = clamp (jobs options div int (length pdfinfo)) 1 3"
    and e: "environ' = environ(''OMP_THREAD_LIMIT'' \<mapsto> py_str budget)"
    by (auto simp: validate_def floordiv_def Let_def split: if_splits)
  from e have s: "environ' ''OMP_THREAD_LIMIT'' = Some (py_str budget)" by simp
  from b have r: "isnumeric (py_str budget)" "py_int (py_str budget) = Inr budget"
    using budget_roundtrip by simp_all
  from validate_adopt [of environ' "py_str budget" pdfinfo' options', OF s r(1)] r(2)
  show ?thesis by simp
next
  case True
  with assms have e: "environ' = environ"
    and i: "py_int (environ_get environ ''OMP_THREAD_LIMIT'' '''') = Inr budget"
    by (auto simp: validate_def environ_item_def environ_get_def
        split: option.splits sum.splits)
  from True obtain v where s: "environ ''OMP_THREAD_LIMIT'' = Some v"
    by (cases "environ ''OMP_THREAD_LIMIT''") (auto simp: environ_get_def isnumeric_def)
  with True i have "isnumeric v" "py_int v = Inr budget" by (simp_all add: environ_get_def)
  with validate_adopt [of environ v pdfinfo' options', OF s] e show ?thesis by simp
qed

theorem validate_idempotent_witness:
  "validate (pages 1) (default_options 4) Map.empty = Inr ([''OMP_THREAD_LIMIT'' \<mapsto> ''3''], 3) \<and>
   validate (pages 10) (default_options 1) [''OMP_THREAD_LIMIT'' \<mapsto> ''3''] =
     Inr ([''OMP_THREAD_LIMIT'' \<mapsto> ''3''], 3)"
proof -
  have v: "validate (pages 1) (default_options 4) Map.empty = Inr ([''OMP_THREAD_LIMIT'' \<mapsto> ''3''], 3)"
    by (simp add: validate_def environ_get_def isnumeric_def floordiv_def pages_def
      default_options_def clamp_def py_str_small)
  from validate_idempotent [OF v, of "pages 10" "default_options 1"] v show ?thesis by simp
qed

subsection \<open>The warnings of \<^verbatim>\<open>check_options\<close>\<close>

text \<open>
  Claim C8. When the program check has passed, the engine does not support configurable
  thresholding and a thresholding method other than the default 0 is requested,
  \<^verbatim>\<open>check_options\<close> does not fail and emits the thresholding warning exactly once: it is
  the whole log, unless the page-segmentation mode is 0 or 2, for which the warning of that
  mode follows it. The options that go out to the engine process for \<^verbatim>\<open>generate_hocr\<close>
  and \<^verbatim>\<open>generate_pdf\<close> on the checked options hold no thresholding option.
\<close>

theorem check_options_thresholding_warning:
  assumes "program_check tess = None" and "\<not> has_thresholding tess"
    and "tesseract_thresholding options \<noteq> 0"
  shows "\<exists>options' log.
      check_options tess options = Inr (options', log) \<and>
      log = thresholding_warning #
              (if tesseract_pagesegmode options \<in> {Some 0, Some 2} then [pagesegmode_warning] else []) \<and>
      count_list log thresholding_warning = 1 \<and>
      map_of (engine_arguments tess (generate_hocr input_file output_hocr output_text options'))
        ''thresholding'' = None \<and>
      map_of (engine_arguments tess (generate_pdf input_file output_pdf output_text options'))
        ''thresholding'' = None"
  using assms warnings_distinct
  by (simp add: check_options_def Let_def engine_arguments_def generate_hocr_def generate_pdf_def)

theorem check_options_thresholding_warning_witness:
  "check_options old_tesseract ((default_options 4)\<lparr>tesseract_thresholding := 2\<rparr>) =
     Inr ((default_options 4)\<lparr>pdf_renderer := ''sandwich'', tesseract_thresholding := 2\<rparr>,
          [thresholding_warning]) \<and>
   kwarg (generate_pdf ''in.png'' ''out.pdf'' ''out.txt''
            ((default_options 4)\<lparr>pdf_renderer := ''sandwich'', tesseract_thresholding := 2\<rparr>))
     ''thresholding'' = Some (PyInt 2) \<and>
   map_of (engine_arguments old_tesseract
             (generate_pdf ''in.png'' ''out.pdf'' ''out.txt''
                ((default_options 4)\<lparr>pdf_renderer := ''sandwich'', tesseract_thresholding := 2\<rparr>)))
     ''thresholding'' = None"
  using check_options_thresholding_warning
    [of old_tesseract "(default_options 4)\<lparr>tesseract_thresholding := 2\<rparr>"
        "''in.png''" "''out.hocr''" "''out.txt''" "''out.pdf''"]
  by (simp add: check_options_def old_tesseract_def default_options_def kwarg_def
      engine_arguments_def generate_pdf_def generate_hocr_def)

text \<open>
  Claim C9. When the program check has passed, \<^verbatim>\<open>check_options\<close>, which runs on the options
  alone, emits the warning that the page-segmentation mode will disable OCR if that mode is
  0 or 2, and does not emit it for any other mode or when no mode is set.
\<close>

theorem check_options_pagesegmode_warning:
  assumes "program_check tess = None"
  shows "\<exists>options' log.
      check_options tess options = Inr (options', log) \<and>
      (pagesegmode_warning \<in> set log \<longleftrightarrow>
         tesseract_pagesegmode options = Some 0 \<or> tesseract_pagesegmode options = Some 2)"
  using assms warnings_distinct by (auto simp: check_options_def Let_def)

theorem check_options_pagesegmode_warning_witness:
  "check_options old_tesseract ((default_options 4)\<lparr>tesseract_pagesegmode := Some 2\<rparr>) =
     Inr ((default_options 4)\<lparr>pdf_renderer := ''sandwich'', tesseract_pagesegmode := Some 2\<rparr>,
          [pagesegmode_warning]) \<and>
   check_options old_tesseract ((default_options 4)\<lparr>tesseract_pagesegmode := Some 1\<rparr>) =
     Inr ((default_options 4)\<lparr>pdf_renderer := ''sandwich'', tesseract_pagesegmode := Some 1\<rparr>, [])"
  using check_options_pagesegmode_warning
    [of old_tesseract "(default_options 4)\<lparr>tesseract_pagesegmode := Some 2\<rparr>"]
    check_options_pagesegmode_warning
    [of old_tesseract "(default_options 4)\<lparr>tesseract_pagesegmode := Some 1\<rparr>"]
  by (simp add: check_options_def old_tesseract_def default_options_def)

text \<open>
  Claim C10. When \<^verbatim>\<open>check_options\<close> returns, the options are the ones it was given, except
  that the PDF renderer \<^verbatim>\<open>auto\<close> has become \<^verbatim>\<open>sandwich\<close>; any other renderer, and every
  other field, is as before.
\<close>

theorem check_options_renderer_frame:
  assumes "check_options tess options = Inr (options', log)"
  shows "options' =
    options\<lparr>pdf_renderer :=
      (if pdf_renderer options = ''auto'' then ''sandwich'' else pdf_renderer options)\<rparr>"
  using assms by (auto simp: check_options_def Let_def split: option.splits if_splits)

theorem check_options_renderer_frame_witness:
  "check_options old_tesseract ((default_options 4)\<lparr>pdf_renderer := ''hocr''\<rparr>) =
     Inr ((default_options 4)\<lparr>pdf_renderer := ''hocr''\<rparr>, []) \<and>
   check_options old_tesseract (default_options 4) =
     Inr ((default_options 4)\<lparr>pdf_renderer := ''sandwich''\<rparr>, [])"
proof -
  have a: "check_options old_tesseract ((default_options 4)\<lparr>pdf_renderer := ''hocr''\<rparr>) =
     Inr ((default_options 4)\<lparr>pdf_renderer := ''hocr''\<rparr>, [])"
    by (simp add: check_options_def old_tesseract_def default_options_def)
  have b: "check_options old_tesseract (default_options 4) =
     Inr ((default_options 4)\<lparr>pdf_renderer := ''sandwich''\<rparr>, [])"
    by (simp add: check_options_def old_tesseract_def default_options_def)
  from check_options_renderer_frame [OF a] check_options_renderer_frame [OF b] a b
  show ?thesis by simp
qed

end
